theory Spec2Isabelle
  imports Main
begin

section \<open>Collaborators of attribute-accessor-helper.h\<close>

text \<open>
  The header reaches its collaborators through two base-class handles: an
  \<^verbatim>\<open>ObjectBase *\<close> and an \<^verbatim>\<open>AttributeValue &\<close>. What the accessor sees of
  them is their dynamic type, tested by \<^verbatim>\<open>dynamic_cast\<close>: either the class the accessor
  was instantiated for (\<open>T\<close>, resp. the value class \<open>V\<close>; a derived class counts, seen
  through its \<open>T\<close> or \<open>V\<close> part) or some unrelated class. A pointer may also be null; a
  reference may not.
\<close>

datatype ('t, 'x) ObjectBase = InstanceOfT 't | UnrelatedObject 'x

datatype ('v, 'w) AttributeValue = InstanceOfV 'v | UnrelatedValue 'w

text \<open>\<^verbatim>\<open>dynamic_cast<T *> (object)\<close>: a null result is \<open>None\<close>.\<close>

fun dynamic_cast_T :: "('t, 'x) ObjectBase option \<Rightarrow> 't option" where
  "dynamic_cast_T None = None"
| "dynamic_cast_T (Some (InstanceOfT obj)) = Some obj"
| "dynamic_cast_T (Some (UnrelatedObject x)) = None"

text \<open>\<^verbatim>\<open>dynamic_cast<U *> (&val)\<close>.\<close>

fun dynamic_cast_V :: "('v, 'w) AttributeValue \<Rightarrow> 'v option" where
  "dynamic_cast_V (InstanceOfV v) = Some v"
| "dynamic_cast_V (UnrelatedValue w) = None"

text \<open>
  The class \<open>T\<close> holding the attribute. Its data members of type \<open>U\<close> form a store
  indexed by the member's address (the \<^verbatim>\<open>U T::*\<close> value); whatever else the class holds
  is the record's extension.
\<close>

record ('m, 'u) T_object =
  members :: "'m \<Rightarrow> 'u"

text \<open>
  The value class \<open>V\<close> is declared outside this header; the header uses two of its
  operations, taken here as parameters:
  \<^item> \<^verbatim>\<open>bool GetAccessor (U &tmp) const\<close>, returning the flag and what it left in
    \<open>tmp\<close>;
  \<^item> \<^verbatim>\<open>void Set (const U &)\<close>, which overwrites the container.
\<close>

record ('v, 'u) V_class =
  GetAccessor :: "'v \<Rightarrow> bool \<times> 'u"
  V_Set :: "'u \<Rightarrow> 'v \<Rightarrow> 'v"

section \<open>AccessorHelper\<close>

text \<open>
  \<^verbatim>\<open>AccessorHelper<T,U>\<close> is abstract: its subclasses supply \<open>DoSet\<close>, \<open>DoGet\<close>,
  \<open>HasGetter\<close> and \<open>HasSetter\<close>. An object of the class is the table of these four.
  \<open>DoSet\<close> may change the object it is given, \<open>DoGet\<close> the value container; both
  return the updated one beside their flag.
\<close>

record ('t, 'v) AccessorHelper =
  DoSet :: "'t \<Rightarrow> 'v \<Rightarrow> bool \<times> 't"
  DoGet :: "'t \<Rightarrow> 'v \<Rightarrow> bool \<times> 'v"
  HasGetter :: bool
  HasSetter :: bool

text \<open>
  \<^verbatim>\<open>AccessorHelper::Set (ObjectBase *object, const AttributeValue &val)\<close>. The value is
  const; the result carries the flag and the object behind the pointer afterwards.
\<close>

definition AccessorHelper_Set ::
  "('t, 'v) AccessorHelper \<Rightarrow> ('t, 'x) ObjectBase option \<Rightarrow> ('v, 'w) AttributeValue
    \<Rightarrow> bool \<times> ('t, 'x) ObjectBase option" where
  "AccessorHelper_Set a object val =
     (case dynamic_cast_V val of
        None \<Rightarrow> (False, object)
      | Some value \<Rightarrow>
          (case dynamic_cast_T object of
             None \<Rightarrow> (False, object)
           | Some obj \<Rightarrow>
               (case DoSet a obj value of
                  (ok, obj') \<Rightarrow> (ok, Some (InstanceOfT obj')))))"

text \<open>
  \<^verbatim>\<open>AccessorHelper::Get (const ObjectBase *object, AttributeValue &val)\<close>. The object is
  const; the result carries the flag and the value container afterwards.
\<close>

definition AccessorHelper_Get ::
  "('t, 'v) AccessorHelper \<Rightarrow> ('t, 'x) ObjectBase option \<Rightarrow> ('v, 'w) AttributeValue
    \<Rightarrow> bool \<times> ('v, 'w) AttributeValue" where
  "AccessorHelper_Get a object val =
     (case dynamic_cast_V val of
        None \<Rightarrow> (False, val)
      | Some value \<Rightarrow>
          (case dynamic_cast_T object of
             None \<Rightarrow> (False, val)
           | Some obj \<Rightarrow>
               (case DoGet a obj value of
                  (ok, value') \<Rightarrow> (ok, InstanceOfV value'))))"

section \<open>The DoMakeAccessorHelper overloads\<close>

text \<open>
  Each overload builds an object of a class local to it. A member function
  \<^verbatim>\<open>void (T::*)(U)\<close> is a function from the argument and the object to the object
  afterwards; \<^verbatim>\<open>bool (T::*)(U)\<close> returns its flag as well;
  \<^verbatim>\<open>U (T::*)(void) const\<close> reads the object.
\<close>

text \<open>\<^verbatim>\<open>DoMakeAccessorHelperOne (U T::*memberVariable)\<close>, local class MemberVariable.\<close>

definition DoMakeAccessorHelperOne_memberVariable ::
  "('v, 'u) V_class \<Rightarrow> 'm \<Rightarrow> (('m, 'u, 'z) T_object_scheme, 'v) AccessorHelper" where
  "DoMakeAccessorHelperOne_memberVariable V memberVariable =
     \<lparr> DoSet = (\<lambda>object v.
         (case GetAccessor V v of
            (ok, tmp) \<Rightarrow>
              if \<not> ok then (False, object)
              else (True, object\<lparr>members := (members object)(memberVariable := tmp)\<rparr>))),
       DoGet = (\<lambda>object v. (True, V_Set V (members object memberVariable) v)),
       HasGetter = True,
       HasSetter = True \<rparr>"

text \<open>\<^verbatim>\<open>DoMakeAccessorHelperOne (U (T::*getter)(void) const)\<close>.\<close>

definition DoMakeAccessorHelperOne_getter ::
  "('v, 'u) V_class \<Rightarrow> ('t \<Rightarrow> 'u) \<Rightarrow> ('t, 'v) AccessorHelper" where
  "DoMakeAccessorHelperOne_getter V getter =
     \<lparr> DoSet = (\<lambda>object v. (False, object)),
       DoGet = (\<lambda>object v. (True, V_Set V (getter object) v)),
       HasGetter = True,
       HasSetter = False \<rparr>"

text \<open>\<^verbatim>\<open>DoMakeAccessorHelperOne (void (T::*setter)(U))\<close>.\<close>

definition DoMakeAccessorHelperOne_setter ::
  "('v, 'u) V_class \<Rightarrow> ('u \<Rightarrow> 't \<Rightarrow> 't) \<Rightarrow> ('t, 'v) AccessorHelper" where
  "DoMakeAccessorHelperOne_setter V setter =
     \<lparr> DoSet = (\<lambda>object v.
         (case GetAccessor V v of
            (ok, tmp) \<Rightarrow>
              if \<not> ok then (False, object)
              else (True, setter tmp object))),
       DoGet = (\<lambda>object v. (False, v)),
       HasGetter = False,
       HasSetter = True \<rparr>"

text \<open>
  \<^verbatim>\<open>DoMakeAccessorHelperTwo (void (T::*setter)(U), V (T::*getter)(void) const)\<close>.
\<close>

definition DoMakeAccessorHelperTwo_setter_getter ::
  "('v, 'u) V_class \<Rightarrow> ('u \<Rightarrow> 't \<Rightarrow> 't) \<Rightarrow> ('t \<Rightarrow> 'u) \<Rightarrow> ('t, 'v) AccessorHelper" where
  "DoMakeAccessorHelperTwo_setter_getter V setter getter =
     \<lparr> DoSet = (\<lambda>object v.
         (case GetAccessor V v of
            (ok, tmp) \<Rightarrow>
              if \<not> ok then (False, object)
              else (True, setter tmp object))),
       DoGet = (\<lambda>object v. (True, V_Set V (getter object) v)),
       HasGetter = True,
       HasSetter = True \<rparr>"

text \<open>
  \<^verbatim>\<open>DoMakeAccessorHelperTwo (V (T::*getter)(void) const, void (T::*setter)(U))\<close>
  forwards to the overload above.
\<close>

definition DoMakeAccessorHelperTwo_getter_setter ::
  "('v, 'u) V_class \<Rightarrow> ('t \<Rightarrow> 'u) \<Rightarrow> ('u \<Rightarrow> 't \<Rightarrow> 't) \<Rightarrow> ('t, 'v) AccessorHelper" where
  "DoMakeAccessorHelperTwo_getter_setter V getter setter =
     DoMakeAccessorHelperTwo_setter_getter V setter getter"

text \<open>
  \<^verbatim>\<open>DoMakeAccessorHelperTwo (bool (T::*setter)(U), V (T::*getter)(void) const)\<close>.
\<close>

definition DoMakeAccessorHelperTwo_bool_setter_getter ::
  "('v, 'u) V_class \<Rightarrow> ('u \<Rightarrow> 't \<Rightarrow> bool \<times> 't) \<Rightarrow> ('t \<Rightarrow> 'u)
    \<Rightarrow> ('t, 'v) AccessorHelper" where
  "DoMakeAccessorHelperTwo_bool_setter_getter V setter getter =
     \<lparr> DoSet = (\<lambda>object v.
         (case GetAccessor V v of
            (ok, tmp) \<Rightarrow>
              if \<not> ok then (False, object)
              else (case setter tmp object of (ok', object') \<Rightarrow> (ok', object')))),
       DoGet = (\<lambda>object v. (True, V_Set V (getter object) v)),
       HasGetter = True,
       HasSetter = True \<rparr>"

text \<open>
  \<^verbatim>\<open>DoMakeAccessorHelperTwo (V (T::*getter)(void) const, bool (T::*setter)(U))\<close>
  forwards to the overload above.
\<close>

definition DoMakeAccessorHelperTwo_getter_bool_setter ::
  "('v, 'u) V_class \<Rightarrow> ('t \<Rightarrow> 'u) \<Rightarrow> ('u \<Rightarrow> 't \<Rightarrow> bool \<times> 't)
    \<Rightarrow> ('t, 'v) AccessorHelper" where
  "DoMakeAccessorHelperTwo_getter_bool_setter V getter setter =
     DoMakeAccessorHelperTwo_bool_setter_getter V setter getter"

section \<open>MakeAccessorHelper\<close>

text \<open>
  The arguments of \<^verbatim>\<open>MakeAccessorHelper\<close> are pointers to members of \<open>T\<close>; which
  overload of \<^verbatim>\<open>DoMakeAccessorHelperOne\<close> or \<^verbatim>\<open>DoMakeAccessorHelperTwo\<close> a call
  selects depends on their types alone. The four kinds of pointer the header's
  documentation speaks of are the constructors below.
\<close>

datatype ('m, 'u, 'z) member_pointer =
    DataMember 'm
  | GetMethod "('m, 'u, 'z) T_object_scheme \<Rightarrow> 'u"
  | VoidSetMethod "'u \<Rightarrow> ('m, 'u, 'z) T_object_scheme \<Rightarrow> ('m, 'u, 'z) T_object_scheme"
  | BoolSetMethod
      "'u \<Rightarrow> ('m, 'u, 'z) T_object_scheme \<Rightarrow> bool \<times> ('m, 'u, 'z) T_object_scheme"

text \<open>
  A call that selects no overload whose body is well-formed for the argument
  types yields no accessor: the translation unit is rejected.
\<close>

datatype make_error = IllFormedCall

text \<open>
  \<^verbatim>\<open>MakeAccessorHelper<V> (a1)\<close> returns \<^verbatim>\<open>DoMakeAccessorHelperOne<V> (a1)\<close>. That
  function has three overloads: for \<^verbatim>\<open>U T::*\<close>, for \<^verbatim>\<open>U (T::*)(void) const\<close> and for
  \<^verbatim>\<open>void (T::*)(U)\<close>. A \<^verbatim>\<open>bool (T::*)(U)\<close> argument matches neither of the two
  method patterns; the only parameter it can be deduced against is \<^verbatim>\<open>U T::*\<close> with a
  function type for \<open>U\<close>, and the MemberVariable class (a temporary of type \<open>U\<close>, an
  assignment to the member) is ill-formed for it.
\<close>

fun MakeAccessorHelper_a1 ::
  "('v, 'u) V_class \<Rightarrow> ('m, 'u, 'z) member_pointer
    \<Rightarrow> make_error + (('m, 'u, 'z) T_object_scheme, 'v) AccessorHelper" where
  "MakeAccessorHelper_a1 V (DataMember memberVariable) =
     Inr (DoMakeAccessorHelperOne_memberVariable V memberVariable)"
| "MakeAccessorHelper_a1 V (GetMethod getter) =
     Inr (DoMakeAccessorHelperOne_getter V getter)"
| "MakeAccessorHelper_a1 V (VoidSetMethod setter) =
     Inr (DoMakeAccessorHelperOne_setter V setter)"
| "MakeAccessorHelper_a1 V (BoolSetMethod setter) = Inl IllFormedCall"

text \<open>
  \<^verbatim>\<open>MakeAccessorHelper<V> (a1, a2)\<close> returns \<^verbatim>\<open>DoMakeAccessorHelperTwo<V> (a1, a2)\<close>,
  which has four overloads: a getter with a void or bool setter, in either order.
\<close>

fun MakeAccessorHelper_a1_a2 ::
  "('v, 'u) V_class \<Rightarrow> ('m, 'u, 'z) member_pointer \<Rightarrow> ('m, 'u, 'z) member_pointer
    \<Rightarrow> make_error + (('m, 'u, 'z) T_object_scheme, 'v) AccessorHelper" where
  "MakeAccessorHelper_a1_a2 V (VoidSetMethod setter) (GetMethod getter) =
     Inr (DoMakeAccessorHelperTwo_setter_getter V setter getter)"
| "MakeAccessorHelper_a1_a2 V (GetMethod getter) (VoidSetMethod setter) =
     Inr (DoMakeAccessorHelperTwo_getter_setter V getter setter)"
| "MakeAccessorHelper_a1_a2 V (BoolSetMethod setter) (GetMethod getter) =
     Inr (DoMakeAccessorHelperTwo_bool_setter_getter V setter getter)"
| "MakeAccessorHelper_a1_a2 V (GetMethod getter) (BoolSetMethod setter) =
     Inr (DoMakeAccessorHelperTwo_getter_bool_setter V getter setter)"
| "MakeAccessorHelper_a1_a2 V a1 a2 = Inl IllFormedCall"

section \<open>Properties\<close>

text \<open>
  A downcast of the object pointer that succeeds found an instance of \<open>T\<close> behind
  the pointer.
\<close>

lemma dynamic_cast_T_Some:
  "dynamic_cast_T object = Some obj \<longleftrightarrow> object = Some (InstanceOfT obj)"
  by (cases object rule: dynamic_cast_T.cases) auto

text \<open>
  C1. The header's documentation of the one-argument \<^verbatim>\<open>MakeAccessorHelper\<close> lists
  \<^verbatim>\<open>bool (T::*setter)(U)\<close> among the setters it takes, and the claim expects a
  set-only accessor from it whose \<open>Set\<close> mirrors the setter's flag. No overload of
  \<^verbatim>\<open>DoMakeAccessorHelperOne\<close> takes such a setter: the call for a setter that clamps
  \<open>speed\<close> at 100 and reports whether the value fitted yields no accessor.
\<close>

theorem lone_bool_setter_yields_no_accessor:
  "MakeAccessorHelper_a1
     \<lparr>GetAccessor = (\<lambda>v::int. (0 \<le> v, nat v)), V_Set = (\<lambda>u v. int u)\<rparr>
     (BoolSetMethod (\<lambda>u obj. (u \<le> 100, obj\<lparr>members := (members obj)(''speed'' := min u 100)\<rparr>))
        :: (string, nat, unit) member_pointer)
   = Inl IllFormedCall"
  by simp

text \<open>
  C2. For every accessor (whatever subclass supplied \<open>DoSet\<close> and \<open>DoGet\<close>) and every
  call of \<open>Set\<close> or \<open>Get\<close>: when the downcast of the value to \<open>V\<close> or the downcast of
  the object to \<open>T\<close> fails, the call returns false, \<open>Set\<close> leaves the object as it was
  and \<open>Get\<close> leaves the value container as it was. (The value is const in \<open>Set\<close> and
  the object is const in \<open>Get\<close>.)
\<close>

theorem Set_Get_narrowing_failure:
  assumes "dynamic_cast_V val = None \<or> dynamic_cast_T object = None"
  shows "AccessorHelper_Set a object val = (False, object)
       \<and> AccessorHelper_Get a object val = (False, val)"
  using assms
  by (auto simp: AccessorHelper_Set_def AccessorHelper_Get_def split: option.splits)

text \<open>
  The hypothesis of C2 at a concrete call: a field accessor for an unsigned member
  \<open>speed\<close> over a signed integer container, handed a string value.
\<close>

theorem Set_Get_narrowing_failure_witness:
  "(dynamic_cast_V (UnrelatedValue ''x'' :: (int, string) AttributeValue) = None
      \<or> dynamic_cast_T (Some (InstanceOfT \<lparr>members = (\<lambda>m. 5)\<rparr>)
            :: ((string, nat) T_object, unit) ObjectBase option) = None)
   \<and> AccessorHelper_Set
        (DoMakeAccessorHelperOne_memberVariable
           \<lparr>GetAccessor = (\<lambda>v. (0 \<le> v, nat v)), V_Set = (\<lambda>u v. int u)\<rparr> ''speed'')
        (Some (InstanceOfT \<lparr>members = (\<lambda>m. 5)\<rparr>)
           :: ((string, nat) T_object, unit) ObjectBase option)
        (UnrelatedValue ''x'' :: (int, string) AttributeValue)
      = (False, Some (InstanceOfT \<lparr>members = (\<lambda>m. 5)\<rparr>))
   \<and> AccessorHelper_Get
        (DoMakeAccessorHelperOne_memberVariable
           \<lparr>GetAccessor = (\<lambda>v. (0 \<le> v, nat v)), V_Set = (\<lambda>u v. int u)\<rparr> ''speed'')
        (Some (InstanceOfT \<lparr>members = (\<lambda>m. 5)\<rparr>)
           :: ((string, nat) T_object, unit) ObjectBase option)
        (UnrelatedValue ''x'' :: (int, string) AttributeValue)
      = (False, UnrelatedValue ''x'')"
  using Set_Get_narrowing_failure
    [of "UnrelatedValue ''x'' :: (int, string) AttributeValue"
        "Some (InstanceOfT \<lparr>members = (\<lambda>m. 5)\<rparr>)
           :: ((string, nat) T_object, unit) ObjectBase option"
        "DoMakeAccessorHelperOne_memberVariable
           \<lparr>GetAccessor = (\<lambda>v. (0 \<le> v, nat v)), V_Set = (\<lambda>u v. int u)\<rparr> ''speed''"]
  by simp

text \<open>
  C3. For the four accessors that have a setter (data member, lone void setter, void
  setter with getter, bool setter with getter): when both downcasts succeed and
  \<open>GetAccessor\<close> reports failure, \<open>Set\<close> returns false and the object is exactly as it
  was, whatever the setter would have done to it.
\<close>

theorem Set_conversion_failure:
  assumes "dynamic_cast_V val = Some v"
    and "dynamic_cast_T object = Some obj"
    and "\<not> fst (GetAccessor V v)"
  shows "AccessorHelper_Set (DoMakeAccessorHelperOne_memberVariable V memberVariable) object val
           = (False, object)
       \<and> AccessorHelper_Set (DoMakeAccessorHelperOne_setter V setter) object val
           = (False, object)
       \<and> AccessorHelper_Set (DoMakeAccessorHelperTwo_setter_getter V setter getter) object val
           = (False, object)
       \<and> AccessorHelper_Set (DoMakeAccessorHelperTwo_bool_setter_getter V bsetter getter) object val
           = (False, object)"
proof -
  obtain tmp where "GetAccessor V v = (False, tmp)"
    using assms(3) by (cases "GetAccessor V v") auto
  moreover have "object = Some (InstanceOfT obj)"
    using assms(2) by (simp add: dynamic_cast_T_Some)
  ultimately show ?thesis
    using assms(1)
    by (simp add: AccessorHelper_Set_def DoMakeAccessorHelperOne_memberVariable_def
        DoMakeAccessorHelperOne_setter_def DoMakeAccessorHelperTwo_setter_getter_def
        DoMakeAccessorHelperTwo_bool_setter_getter_def)
qed

text \<open>
  C3 at a concrete call: the container holds \<open>- 1\<close>, which does not convert to the
  unsigned member type; the setters used would have changed every member.
\<close>

theorem Set_conversion_failure_witness:
  "dynamic_cast_V (InstanceOfV (- 1) :: (int, string) AttributeValue) = Some (- 1)
   \<and> dynamic_cast_T (Some (InstanceOfT \<lparr>members = (\<lambda>m. 5)\<rparr>)
         :: ((string, nat) T_object, unit) ObjectBase option) = Some \<lparr>members = (\<lambda>m. 5)\<rparr>
   \<and> \<not> fst (GetAccessor \<lparr>GetAccessor = (\<lambda>v. (0 \<le> v, nat v)), V_Set = (\<lambda>u v. int u)\<rparr> (- 1))
   \<and> AccessorHelper_Set
        (DoMakeAccessorHelperOne_memberVariable
           \<lparr>GetAccessor = (\<lambda>v. (0 \<le> v, nat v)), V_Set = (\<lambda>u v. int u)\<rparr> ''speed'')
        (Some (InstanceOfT \<lparr>members = (\<lambda>m. 5)\<rparr>)
           :: ((string, nat) T_object, unit) ObjectBase option)
        (InstanceOfV (- 1) :: (int, string) AttributeValue)
      = (False, Some (InstanceOfT \<lparr>members = (\<lambda>m. 5)\<rparr>))
   \<and> AccessorHelper_Set
        (DoMakeAccessorHelperOne_setter
           \<lparr>GetAccessor = (\<lambda>v. (0 \<le> v, nat v)), V_Set = (\<lambda>u v. int u)\<rparr>
           (\<lambda>u obj. obj\<lparr>members := (\<lambda>m. members obj m + u + 1)\<rparr>))
        (Some (InstanceOfT \<lparr>members = (\<lambda>m. 5)\<rparr>)
           :: ((string, nat) T_object, unit) ObjectBase option)
        (InstanceOfV (- 1) :: (int, string) AttributeValue)
      = (False, Some (InstanceOfT \<lparr>members = (\<lambda>m. 5)\<rparr>))
   \<and> AccessorHelper_Set
        (DoMakeAccessorHelperTwo_setter_getter
           \<lparr>GetAccessor = (\<lambda>v. (0 \<le> v, nat v)), V_Set = (\<lambda>u v. int u)\<rparr>
           (\<lambda>u obj. obj\<lparr>members := (\<lambda>m. members obj m + u + 1)\<rparr>)
           (\<lambda>obj. members obj ''speed''))
        (Some (InstanceOfT \<lparr>members = (\<lambda>m. 5)\<rparr>)
           :: ((string, nat) T_object, unit) ObjectBase option)
        (InstanceOfV (- 1) :: (int, string) AttributeValue)
      = (False, Some (InstanceOfT \<lparr>members = (\<lambda>m. 5)\<rparr>))
   \<and> AccessorHelper_Set
        (DoMakeAccessorHelperTwo_bool_setter_getter
           \<lparr>GetAccessor = (\<lambda>v. (0 \<le> v, nat v)), V_Set = (\<lambda>u v. int u)\<rparr>
           (\<lambda>u obj. (True, obj\<lparr>members := (\<lambda>m. members obj m + u + 1)\<rparr>))
           (\<lambda>obj. members obj ''speed''))
        (Some (InstanceOfT \<lparr>members = (\<lambda>m. 5)\<rparr>)
           :: ((string, nat) T_object, unit) ObjectBase option)
        (InstanceOfV (- 1) :: (int, string) AttributeValue)
      = (False, Some (InstanceOfT \<lparr>members = (\<lambda>m. 5)\<rparr>))"
  using Set_conversion_failure
    [of "InstanceOfV (- 1) :: (int, string) AttributeValue" "- 1"
        "Some (InstanceOfT \<lparr>members = (\<lambda>m. 5)\<rparr>)
           :: ((string, nat) T_object, unit) ObjectBase option"
        "\<lparr>members = (\<lambda>m. 5)\<rparr>"
        "\<lparr>GetAccessor = (\<lambda>v. (0 \<le> v, nat v)), V_Set = (\<lambda>u v. int u)\<rparr>"
        "''speed''"
        "\<lambda>u obj. obj\<lparr>members := (\<lambda>m. members obj m + u + 1)\<rparr>"
        "\<lambda>obj. members obj ''speed''"
        "\<lambda>u obj. (True, obj\<lparr>members := (\<lambda>m. members obj m + u + 1)\<rparr>)"]
  by simp

text \<open>
  C4. Let storing \<open>v\<close> in a container and extracting again give \<open>v\<close>, and let the
  value passed to \<open>Set\<close> be a container storing \<open>v\<close>. For the data-member accessor,
  \<open>Set\<close> on an object of class \<open>T\<close> returns true and writes \<open>v\<close> to the member; for the
  accessor of a void setter and a getter that reads what the setter installed, \<open>Set\<close>
  returns true and leaves the object as the setter made it; for the accessor of a bool
  setter and such a getter, \<open>Set\<close> returns true when the setter accepts \<open>v\<close>. In each
  case \<open>Get\<close> on the resulting object into any container \<open>out\<close> of class \<open>V\<close> returns
  true, and extracting from the container afterwards gives \<open>v\<close>.
\<close>

theorem Set_Get_round_trip:
  assumes inverse: "\<forall>c. GetAccessor V (V_Set V v c) = (True, v)"
  shows "(AccessorHelper_Set (DoMakeAccessorHelperOne_memberVariable V memberVariable)
            (Some (InstanceOfT obj) :: (_, 'x) ObjectBase option)
            (InstanceOfV (V_Set V v c) :: (_, 'w) AttributeValue)
          = (True, Some (InstanceOfT (obj\<lparr>members := (members obj)(memberVariable := v)\<rparr>)))
        \<and> AccessorHelper_Get (DoMakeAccessorHelperOne_memberVariable V memberVariable)
            (Some (InstanceOfT (obj\<lparr>members := (members obj)(memberVariable := v)\<rparr>))
               :: (_, 'x) ObjectBase option)
            (InstanceOfV out :: (_, 'w) AttributeValue)
          = (True, InstanceOfV (V_Set V v out))
        \<and> GetAccessor V (V_Set V v out) = (True, v))
     \<and> (getter (setter v obj) = v \<longrightarrow>
          AccessorHelper_Set (DoMakeAccessorHelperTwo_setter_getter V setter getter)
            (Some (InstanceOfT obj) :: (_, 'x) ObjectBase option)
            (InstanceOfV (V_Set V v c) :: (_, 'w) AttributeValue)
          = (True, Some (InstanceOfT (setter v obj)))
        \<and> AccessorHelper_Get (DoMakeAccessorHelperTwo_setter_getter V setter getter)
            (Some (InstanceOfT (setter v obj)) :: (_, 'x) ObjectBase option)
            (InstanceOfV out :: (_, 'w) AttributeValue)
          = (True, InstanceOfV (V_Set V v out))
        \<and> GetAccessor V (V_Set V v out) = (True, v))
     \<and> (fst (bsetter v obj) \<longrightarrow> getter (snd (bsetter v obj)) = v \<longrightarrow>
          AccessorHelper_Set (DoMakeAccessorHelperTwo_bool_setter_getter V bsetter getter)
            (Some (InstanceOfT obj) :: (_, 'x) ObjectBase option)
            (InstanceOfV (V_Set V v c) :: (_, 'w) AttributeValue)
          = (True, Some (InstanceOfT (snd (bsetter v obj))))
        \<and> AccessorHelper_Get (DoMakeAccessorHelperTwo_bool_setter_getter V bsetter getter)
            (Some (InstanceOfT (snd (bsetter v obj))) :: (_, 'x) ObjectBase option)
            (InstanceOfV out :: (_, 'w) AttributeValue)
          = (True, InstanceOfV (V_Set V v out))
        \<and> GetAccessor V (V_Set V v out) = (True, v))"
proof -
  have box: "GetAccessor V (V_Set V v c) = (True, v)"
    using inverse by simp
  have unbox: "GetAccessor V (V_Set V v out) = (True, v)"
    using inverse by simp
  show ?thesis
    using box unbox
    by (cases "bsetter v obj")
      (simp add: AccessorHelper_Set_def AccessorHelper_Get_def
        DoMakeAccessorHelperOne_memberVariable_def DoMakeAccessorHelperTwo_setter_getter_def
        DoMakeAccessorHelperTwo_bool_setter_getter_def)
qed

text \<open>
  C4 at a concrete call, for all three accessors: \<open>speed\<close> is set to 42 (through the
  member, through a void setter, through a bool setter that accepts values up to 100)
  and read back into a container that held \<open>- 7\<close>.
\<close>

theorem Set_Get_round_trip_witness:
  "(\<forall>c. GetAccessor \<lparr>GetAccessor = (\<lambda>v. (0 \<le> v, nat v)), V_Set = (\<lambda>u v. int u)\<rparr>
          (V_Set \<lparr>GetAccessor = (\<lambda>v. (0 \<le> v, nat v)), V_Set = (\<lambda>u v. int u)\<rparr> 42 c)
        = (True, 42))
   \<and> (\<lambda>obj :: (string, nat) T_object. members obj ''speed'')
        ((\<lambda>u obj. obj\<lparr>members := (members obj)(''speed'' := u)\<rparr>) 42 \<lparr>members = (\<lambda>m. 5)\<rparr>)
      = 42
   \<and> fst ((\<lambda>u (obj :: (string, nat) T_object).
              (u \<le> 100, obj\<lparr>members := (members obj)(''speed'' := min u 100)\<rparr>))
            42 \<lparr>members = (\<lambda>m. 5)\<rparr>)
   \<and> (\<lambda>obj :: (string, nat) T_object. members obj ''speed'')
        (snd ((\<lambda>u obj. (u \<le> 100, obj\<lparr>members := (members obj)(''speed'' := min u 100)\<rparr>))
                42 \<lparr>members = (\<lambda>m. 5)\<rparr>))
      = 42
   \<and> AccessorHelper_Set
        (DoMakeAccessorHelperOne_memberVariable
           \<lparr>GetAccessor = (\<lambda>v. (0 \<le> v, nat v)), V_Set = (\<lambda>u v. int u)\<rparr> ''speed'')
        (Some (InstanceOfT \<lparr>members = (\<lambda>m. 5)\<rparr>)
           :: ((string, nat) T_object, unit) ObjectBase option)
        (InstanceOfV (V_Set \<lparr>GetAccessor = (\<lambda>v. (0 \<le> v, nat v)), V_Set = (\<lambda>u v. int u)\<rparr> 42 0)
           :: (int, string) AttributeValue)
      = (True, Some (InstanceOfT \<lparr>members = (\<lambda>m. 5)(''speed'' := 42)\<rparr>))
   \<and> AccessorHelper_Get
        (DoMakeAccessorHelperOne_memberVariable
           \<lparr>GetAccessor = (\<lambda>v. (0 \<le> v, nat v)), V_Set = (\<lambda>u v. int u)\<rparr> ''speed'')
        (Some (InstanceOfT \<lparr>members = (\<lambda>m. 5)(''speed'' := 42)\<rparr>)
           :: ((string, nat) T_object, unit) ObjectBase option)
        (InstanceOfV (- 7) :: (int, string) AttributeValue)
      = (True, InstanceOfV 42)
   \<and> AccessorHelper_Set
        (DoMakeAccessorHelperTwo_setter_getter
           \<lparr>GetAccessor = (\<lambda>v. (0 \<le> v, nat v)), V_Set = (\<lambda>u v. int u)\<rparr>
           (\<lambda>u obj. obj\<lparr>members := (members obj)(''speed'' := u)\<rparr>)
           (\<lambda>obj. members obj ''speed''))
        (Some (InstanceOfT \<lparr>members = (\<lambda>m. 5)\<rparr>)
           :: ((string, nat) T_object, unit) ObjectBase option)
        (InstanceOfV (V_Set \<lparr>GetAccessor = (\<lambda>v. (0 \<le> v, nat v)), V_Set = (\<lambda>u v. int u)\<rparr> 42 0)
           :: (int, string) AttributeValue)
      = (True, Some (InstanceOfT \<lparr>members = (\<lambda>m. 5)(''speed'' := 42)\<rparr>))
   \<and> AccessorHelper_Get
        (DoMakeAccessorHelperTwo_setter_getter
           \<lparr>GetAccessor = (\<lambda>v. (0 \<le> v, nat v)), V_Set = (\<lambda>u v. int u)\<rparr>
           (\<lambda>u obj. obj\<lparr>members := (members obj)(''speed'' := u)\<rparr>)
           (\<lambda>obj. members obj ''speed''))
        (Some (InstanceOfT \<lparr>members = (\<lambda>m. 5)(''speed'' := 42)\<rparr>)
           :: ((string, nat) T_object, unit) ObjectBase option)
        (InstanceOfV (- 7) :: (int, string) AttributeValue)
      = (True, InstanceOfV 42)
   \<and> AccessorHelper_Set
        (DoMakeAccessorHelperTwo_bool_setter_getter
           \<lparr>GetAccessor = (\<lambda>v. (0 \<le> v, nat v)), V_Set = (\<lambda>u v. int u)\<rparr>
           (\<lambda>u obj. (u \<le> 100, obj\<lparr>members := (members obj)(''speed'' := min u 100)\<rparr>))
           (\<lambda>obj. members obj ''speed''))
        (Some (InstanceOfT \<lparr>members = (\<lambda>m. 5)\<rparr>)
           :: ((string, nat) T_object, unit) ObjectBase option)
        (InstanceOfV (V_Set \<lparr>GetAccessor = (\<lambda>v. (0 \<le> v, nat v)), V_Set = (\<lambda>u v. int u)\<rparr> 42 0)
           :: (int, string) AttributeValue)
      = (True, Some (InstanceOfT \<lparr>members = (\<lambda>m. 5)(''speed'' := 42)\<rparr>))
   \<and> AccessorHelper_Get
        (DoMakeAccessorHelperTwo_bool_setter_getter
           \<lparr>GetAccessor = (\<lambda>v. (0 \<le> v, nat v)), V_Set = (\<lambda>u v. int u)\<rparr>
           (\<lambda>u obj. (u \<le> 100, obj\<lparr>members := (members obj)(''speed'' := min u 100)\<rparr>))
           (\<lambda>obj. members obj ''speed''))
        (Some (InstanceOfT \<lparr>members = (\<lambda>m. 5)(''speed'' := 42)\<rparr>)
           :: ((string, nat) T_object, unit) ObjectBase option)
        (InstanceOfV (- 7) :: (int, string) AttributeValue)
      = (True, InstanceOfV 42)
   \<and> GetAccessor \<lparr>GetAccessor = (\<lambda>v. (0 \<le> v, nat v)), V_Set = (\<lambda>u v. int u)\<rparr>
        (V_Set \<lparr>GetAccessor = (\<lambda>v. (0 \<le> v, nat v)), V_Set = (\<lambda>u v. int u)\<rparr> 42 (- 7))
      = (True, 42)"
  using Set_Get_round_trip
    [where V = "\<lparr>GetAccessor = (\<lambda>v. (0 \<le> v, nat v)), V_Set = (\<lambda>u v. int u)\<rparr>"
       and v = 42
       and getter = "\<lambda>obj. members obj ''speed''"
       and setter = "\<lambda>u obj. obj\<lparr>members := (members obj)(''speed'' := u)\<rparr>"
       and bsetter = "\<lambda>u obj. (u \<le> 100, obj\<lparr>members := (members obj)(''speed'' := min u 100)\<rparr>)"
       and obj = "\<lparr>members = (\<lambda>m. 5)\<rparr> :: (string, nat) T_object"
       and memberVariable = "''speed''"
       and c = 0
       and out = "- 7"
       and 'x = unit and 'w = string]
  by simp

text \<open>
  C5. The accessor that \<^verbatim>\<open>MakeAccessorHelper\<close> returns answers \<open>HasGetter\<close> and
  \<open>HasSetter\<close> by the shape of its arguments: a data member gives (true, true), a lone
  getter (true, false), a lone void setter (false, true), a getter with a setter, in
  either order, (true, true). An accessor is a constant table: neither \<open>Set\<close> nor
  \<open>Get\<close> returns a changed accessor, so the answers cannot change later.
\<close>

theorem capability_flags:
  "map_sum id (\<lambda>a. (HasGetter a, HasSetter a)) (MakeAccessorHelper_a1 V (DataMember m))
     = Inr (True, True)
   \<and> map_sum id (\<lambda>a. (HasGetter a, HasSetter a)) (MakeAccessorHelper_a1 V (GetMethod getter))
     = Inr (True, False)
   \<and> map_sum id (\<lambda>a. (HasGetter a, HasSetter a)) (MakeAccessorHelper_a1 V (VoidSetMethod setter))
     = Inr (False, True)
   \<and> map_sum id (\<lambda>a. (HasGetter a, HasSetter a))
       (MakeAccessorHelper_a1_a2 V (VoidSetMethod setter) (GetMethod getter))
     = Inr (True, True)
   \<and> map_sum id (\<lambda>a. (HasGetter a, HasSetter a))
       (MakeAccessorHelper_a1_a2 V (GetMethod getter) (VoidSetMethod setter))
     = Inr (True, True)
   \<and> map_sum id (\<lambda>a. (HasGetter a, HasSetter a))
       (MakeAccessorHelper_a1_a2 V (BoolSetMethod bsetter) (GetMethod getter))
     = Inr (True, True)
   \<and> map_sum id (\<lambda>a. (HasGetter a, HasSetter a))
       (MakeAccessorHelper_a1_a2 V (GetMethod getter) (BoolSetMethod bsetter))
     = Inr (True, True)"
  by (simp add: DoMakeAccessorHelperOne_memberVariable_def DoMakeAccessorHelperOne_getter_def
      DoMakeAccessorHelperOne_setter_def DoMakeAccessorHelperTwo_setter_getter_def
      DoMakeAccessorHelperTwo_getter_setter_def DoMakeAccessorHelperTwo_bool_setter_getter_def
      DoMakeAccessorHelperTwo_getter_bool_setter_def)

text \<open>
  C6. \<open>Set\<close> on a getter-only accessor returns false on every object and value, also
  when both downcasts succeed, leaves the object as it was, and does so whatever the
  value class's extraction is (it is never consulted). \<open>Get\<close> on a setter-only accessor
  returns false on every input.
\<close>

theorem capability_absence:
  "AccessorHelper_Set (DoMakeAccessorHelperOne_getter (V\<lparr>GetAccessor := extraction\<rparr>) getter)
       object val = (False, object)
   \<and> fst (AccessorHelper_Get (DoMakeAccessorHelperOne_setter V' setter) object' val') = False"
  by (simp add: AccessorHelper_Set_def AccessorHelper_Get_def DoMakeAccessorHelperOne_getter_def
      DoMakeAccessorHelperOne_setter_def dynamic_cast_T_Some split: option.splits)

text \<open>
  C7. For the accessor built from a bool-returning setter and a getter (in either
  argument order): once both downcasts succeed and \<open>GetAccessor\<close> succeeds with
  \<open>tmp\<close>, \<open>Set\<close> returns the setter's own flag and the object is the one the setter
  left, also when the flag is false.
\<close>

theorem bool_setter_Set_mirrors_setter:
  assumes "dynamic_cast_V val = Some v"
    and "dynamic_cast_T object = Some obj"
    and "GetAccessor V v = (True, tmp)"
  shows "AccessorHelper_Set (DoMakeAccessorHelperTwo_bool_setter_getter V setter getter) object val
           = (fst (setter tmp obj), Some (InstanceOfT (snd (setter tmp obj))))
       \<and> AccessorHelper_Set (DoMakeAccessorHelperTwo_getter_bool_setter V getter setter) object val
           = (fst (setter tmp obj), Some (InstanceOfT (snd (setter tmp obj))))"
  using assms
  by (simp add: AccessorHelper_Set_def DoMakeAccessorHelperTwo_bool_setter_getter_def
      DoMakeAccessorHelperTwo_getter_bool_setter_def split: prod.splits)

text \<open>
  C7 at a concrete call: the setter clamps at 100 and reports false for 250; \<open>Set\<close>
  returns false and the object holds the clamped value.
\<close>

theorem bool_setter_Set_mirrors_setter_witness:
  "dynamic_cast_V (InstanceOfV 250 :: (int, string) AttributeValue) = Some 250
   \<and> dynamic_cast_T (Some (InstanceOfT \<lparr>members = (\<lambda>m. 5)\<rparr>)
         :: ((string, nat) T_object, unit) ObjectBase option) = Some \<lparr>members = (\<lambda>m. 5)\<rparr>
   \<and> GetAccessor \<lparr>GetAccessor = (\<lambda>v. (0 \<le> v, nat v)), V_Set = (\<lambda>u v. int u)\<rparr> 250
       = (True, 250)
   \<and> AccessorHelper_Set
        (DoMakeAccessorHelperTwo_bool_setter_getter
           \<lparr>GetAccessor = (\<lambda>v. (0 \<le> v, nat v)), V_Set = (\<lambda>u v. int u)\<rparr>
           (\<lambda>u obj. (u \<le> 100, obj\<lparr>members := (\<lambda>m. min u 100)\<rparr>))
           (\<lambda>obj. members obj ''speed''))
        (Some (InstanceOfT \<lparr>members = (\<lambda>m. 5)\<rparr>)
           :: ((string, nat) T_object, unit) ObjectBase option)
        (InstanceOfV 250 :: (int, string) AttributeValue)
      = (False, Some (InstanceOfT \<lparr>members = (\<lambda>m. 100)\<rparr>))"
  using bool_setter_Set_mirrors_setter
    [of "InstanceOfV 250 :: (int, string) AttributeValue" "250"
        "Some (InstanceOfT \<lparr>members = (\<lambda>m. 5)\<rparr>)
           :: ((string, nat) T_object, unit) ObjectBase option"
        "\<lparr>members = (\<lambda>m. 5)\<rparr>"
        "\<lparr>GetAccessor = (\<lambda>v. (0 \<le> v, nat v)), V_Set = (\<lambda>u v. int u)\<rparr>"
        "250"
        "\<lambda>u obj. (u \<le> 100, obj\<lparr>members := (\<lambda>m. min u 100)\<rparr>)"
        "\<lambda>obj. members obj ''speed''"]
  by simp

text \<open>
  C8. For the accessor built from a lone void setter, and from a void setter with a
  getter (in either argument order): once both downcasts succeed and \<open>GetAccessor\<close>
  succeeds with \<open>tmp\<close>, \<open>Set\<close> applies the setter to \<open>tmp\<close> and returns true, whatever
  the setter does.
\<close>

theorem void_setter_Set_succeeds:
  assumes "dynamic_cast_V val = Some v"
    and "dynamic_cast_T object = Some obj"
    and "GetAccessor V v = (True, tmp)"
  shows "AccessorHelper_Set (DoMakeAccessorHelperOne_setter V setter) object val
           = (True, Some (InstanceOfT (setter tmp obj)))
       \<and> AccessorHelper_Set (DoMakeAccessorHelperTwo_setter_getter V setter getter) object val
           = (True, Some (InstanceOfT (setter tmp obj)))
       \<and> AccessorHelper_Set (DoMakeAccessorHelperTwo_getter_setter V getter setter) object val
           = (True, Some (InstanceOfT (setter tmp obj)))"
  using assms
  by (simp add: AccessorHelper_Set_def DoMakeAccessorHelperOne_setter_def
      DoMakeAccessorHelperTwo_setter_getter_def DoMakeAccessorHelperTwo_getter_setter_def)

text \<open>
  C8 at a concrete call: the setter ignores values above 100; \<open>Set\<close> with 250 returns
  true all the same and the object is unchanged.
\<close>

theorem void_setter_Set_succeeds_witness:
  "dynamic_cast_V (InstanceOfV 250 :: (int, string) AttributeValue) = Some 250
   \<and> dynamic_cast_T (Some (InstanceOfT \<lparr>members = (\<lambda>m. 5)\<rparr>)
         :: ((string, nat) T_object, unit) ObjectBase option) = Some \<lparr>members = (\<lambda>m. 5)\<rparr>
   \<and> GetAccessor \<lparr>GetAccessor = (\<lambda>v. (0 \<le> v, nat v)), V_Set = (\<lambda>u v. int u)\<rparr> 250
       = (True, 250)
   \<and> AccessorHelper_Set
        (DoMakeAccessorHelperOne_setter
           \<lparr>GetAccessor = (\<lambda>v. (0 \<le> v, nat v)), V_Set = (\<lambda>u v. int u)\<rparr>
           (\<lambda>u obj. if u \<le> 100 then obj\<lparr>members := (\<lambda>m. u)\<rparr> else obj))
        (Some (InstanceOfT \<lparr>members = (\<lambda>m. 5)\<rparr>)
           :: ((string, nat) T_object, unit) ObjectBase option)
        (InstanceOfV 250 :: (int, string) AttributeValue)
      = (True, Some (InstanceOfT \<lparr>members = (\<lambda>m. 5)\<rparr>))
   \<and> AccessorHelper_Set
        (DoMakeAccessorHelperTwo_setter_getter
           \<lparr>GetAccessor = (\<lambda>v. (0 \<le> v, nat v)), V_Set = (\<lambda>u v. int u)\<rparr>
           (\<lambda>u obj. if u \<le> 100 then obj\<lparr>members := (\<lambda>m. u)\<rparr> else obj)
           (\<lambda>obj. members obj ''speed''))
        (Some (InstanceOfT \<lparr>members = (\<lambda>m. 5)\<rparr>)
           :: ((string, nat) T_object, unit) ObjectBase option)
        (InstanceOfV 250 :: (int, string) AttributeValue)
      = (True, Some (InstanceOfT \<lparr>members = (\<lambda>m. 5)\<rparr>))"
  using void_setter_Set_succeeds
    [of "InstanceOfV 250 :: (int, string) AttributeValue" "250"
        "Some (InstanceOfT \<lparr>members = (\<lambda>m. 5)\<rparr>)
           :: ((string, nat) T_object, unit) ObjectBase option"
        "\<lparr>members = (\<lambda>m. 5)\<rparr>"
        "\<lparr>GetAccessor = (\<lambda>v. (0 \<le> v, nat v)), V_Set = (\<lambda>u v. int u)\<rparr>"
        "250"
        "\<lambda>u obj. if u \<le> 100 then obj\<lparr>members := (\<lambda>m. u)\<rparr> else obj"
        "\<lambda>obj. members obj ''speed''"]
  by simp

text \<open>
  C9. \<^verbatim>\<open>MakeAccessorHelper\<close> with a setter and a getter, and with the same getter and
  setter in the other order, both return an accessor, and the two agree in \<open>Set\<close>,
  \<open>Get\<close>, \<open>HasGetter\<close> and \<open>HasSetter\<close> on every input; for void and for bool
  setters.
\<close>

theorem argument_order_irrelevant:
  "(\<exists>a b. MakeAccessorHelper_a1_a2 V (VoidSetMethod setter) (GetMethod getter) = Inr a
        \<and> MakeAccessorHelper_a1_a2 V (GetMethod getter) (VoidSetMethod setter) = Inr b
        \<and> (\<forall>object val. AccessorHelper_Set a object val = AccessorHelper_Set b object val)
        \<and> (\<forall>object val. AccessorHelper_Get a object val = AccessorHelper_Get b object val)
        \<and> HasGetter a = HasGetter b \<and> HasSetter a = HasSetter b)
   \<and> (\<exists>a b. MakeAccessorHelper_a1_a2 V (BoolSetMethod bsetter) (GetMethod getter) = Inr a
        \<and> MakeAccessorHelper_a1_a2 V (GetMethod getter) (BoolSetMethod bsetter) = Inr b
        \<and> (\<forall>object val. AccessorHelper_Set a object val = AccessorHelper_Set b object val)
        \<and> (\<forall>object val. AccessorHelper_Get a object val = AccessorHelper_Get b object val)
        \<and> HasGetter a = HasGetter b \<and> HasSetter a = HasSetter b)"
  by (simp add: DoMakeAccessorHelperTwo_getter_setter_def
      DoMakeAccessorHelperTwo_getter_bool_setter_def)

text \<open>
  C10. \<open>Get\<close> on a setter-only accessor, called with an object of class \<open>T\<close> and a
  container of class \<open>V\<close> (both downcasts succeed), returns false and the container
  is exactly as it was.
\<close>

theorem set_only_Get_leaves_value:
  "dynamic_cast_T (Some (InstanceOfT obj)) = Some obj
   \<and> dynamic_cast_V (InstanceOfV v) = Some v
   \<and> AccessorHelper_Get (DoMakeAccessorHelperOne_setter V setter)
       (Some (InstanceOfT obj)) (InstanceOfV v) = (False, InstanceOfV v)"
  by (simp add: AccessorHelper_Get_def DoMakeAccessorHelperOne_setter_def)

end
